theory Spec2Isabelle
  imports Complex_Main "HOL-Library.Word" "HOL-Library.Log_Nat"
begin

unbundle bit_operations_syntax

chapter \<open>The SQLite cache engine and the caching middleware of express-sqlite-cache\<close>

text \<open>
  The development embeds \<^verbatim>\<open>src/express_sqlite_cache.js\<close>: the class
  \<^verbatim>\<open>SQLiteCache\<close> (a TTL cache held in one SQLite table) and the Express
  middleware built by \<^verbatim>\<open>createCacheMiddleware\<close>.

  Conventions of the embedding.
  \<^item> Every method that reads the clock (\<^verbatim>\<open>Date.now()\<close> in JavaScript,
    \<^verbatim>\<open>unixepoch()\<close> in SQL) takes the current Unix time in seconds as the
    argument \<open>now\<close>; \<^verbatim>\<open>Math.floor(Date.now() / 1000)\<close> is that same number.
  \<^item> A method that can throw returns a sum: \<open>Inl\<close> the error, \<open>Inr\<close> the value.
    Methods of the engine also return the engine after the call, since a call can
    change the table before it throws.
  \<^item> The table \<^verbatim>\<open>cache\<close> is the list of its rows in rowid order.
  \<^item> JavaScript strings are modelled by \<^typ>\<open>string\<close>: a character is one code
    unit, and for the ASCII characters it is also the one byte of the UTF-8 encoding that
    the hash function reads. JavaScript numbers, where they are values to be cached, are
    modelled by \<^typ>\<open>int\<close>: the integer-valued numbers, which JavaScript holds exactly
    and prints in decimal up to \<open>2 ^ 53\<close>.
\<close>

section \<open>JavaScript values and JSON\<close>

text \<open>
  The values handed to the cache are JavaScript values. The datatype covers the JSON
  values and \<^verbatim>\<open>undefined\<close>, the value that \<^verbatim>\<open>JSON.stringify\<close> treats
  differently at top level, inside arrays and inside objects. An object is the list of its
  own enumerable properties in enumeration order (for keys that are not array indices, the
  order of insertion); the keys of an object are distinct.
\<close>

datatype jsvalue =
    JUndefined
  | JNull
  | JBool bool
  | JNum int
  | JStr string
  | JArr "jsvalue list"
  | JObj "(string \<times> jsvalue) list"

text \<open>JavaScript truthiness, as tested by \<^verbatim>\<open>if (cached)\<close>.\<close>

fun truthy :: "jsvalue \<Rightarrow> bool" where
  "truthy JUndefined = False"
| "truthy JNull = False"
| "truthy (JBool b) = b"
| "truthy (JNum n) = (n \<noteq> 0)"
| "truthy (JStr s) = (s \<noteq> [])"
| "truthy (JArr xs) = True"
| "truthy (JObj ms) = True"

subsection \<open>\<^verbatim>\<open>JSON.stringify\<close>\<close>

text \<open>
  \<^verbatim>\<open>JSON.stringify\<close> follows ECMAScript's SerializeJSONProperty: strings are quoted
  with the quotation mark, the backslash and the control characters escaped; integers
  print in decimal; \<^verbatim>\<open>undefined\<close> has no serialization at top level (the result is
  \<^verbatim>\<open>undefined\<close>, here \<open>None\<close>), prints as \<^verbatim>\<open>null\<close> inside an array, and
  drops its property inside an object.
\<close>

definition hex_digit :: "nat \<Rightarrow> char" where
  "hex_digit n = (''0123456789abcdef'') ! n"

definition quote_char :: "char \<Rightarrow> string" where
  "quote_char c =
     (if c = CHR 0x22 then [CHR 0x5C, CHR 0x22]
      else if c = CHR 0x5C then [CHR 0x5C, CHR 0x5C]
      else if c = CHR 0x08 then [CHR 0x5C, CHR ''b'']
      else if c = CHR 0x0C then [CHR 0x5C, CHR ''f'']
      else if c = CHR 0x0A then [CHR 0x5C, CHR ''n'']
      else if c = CHR 0x0D then [CHR 0x5C, CHR ''r'']
      else if c = CHR 0x09 then [CHR 0x5C, CHR ''t'']
      else if of_char c < (32::nat)
        then [CHR 0x5C, CHR ''u'', CHR ''0'', CHR ''0'',
              hex_digit (of_char c div 16), hex_digit (of_char c mod 16)]
      else [c])"

definition QuoteJSONString :: "string \<Rightarrow> string" where
  "QuoteJSONString s = [CHR 0x22] @ concat (map quote_char s) @ [CHR 0x22]"

function digits :: "nat \<Rightarrow> string" where
  "digits n =
     (if n < 10 then [hex_digit n]
      else digits (n div 10) @ [hex_digit (n mod 10)])"
  by pat_completeness auto
termination
  by (relation "measure id") auto

declare digits.simps [simp del]

definition NumberToString :: "int \<Rightarrow> string" where
  "NumberToString n =
     (if n < 0 then CHR ''-'' # digits (nat (- n)) else digits (nat n))"

fun join_comma :: "string list \<Rightarrow> string" where
  "join_comma [] = []"
| "join_comma [x] = x"
| "join_comma (x # y # ys) = x @ CHR '','' # join_comma (y # ys)"

fun SerializeJSONProperty :: "jsvalue \<Rightarrow> string option"
  and SerializeJSONArray :: "jsvalue list \<Rightarrow> string list"
  and SerializeJSONObject :: "(string \<times> jsvalue) list \<Rightarrow> string list" where
  "SerializeJSONProperty JUndefined = None"
| "SerializeJSONProperty JNull = Some ''null''"
| "SerializeJSONProperty (JBool b) = Some (if b then ''true'' else ''false'')"
| "SerializeJSONProperty (JNum n) = Some (NumberToString n)"
| "SerializeJSONProperty (JStr s) = Some (QuoteJSONString s)"
| "SerializeJSONProperty (JArr xs) =
     Some (CHR ''['' # join_comma (SerializeJSONArray xs) @ '']'')"
| "SerializeJSONProperty (JObj ms) =
     Some (CHR ''{'' # join_comma (SerializeJSONObject ms) @ ''}'')"
| "SerializeJSONArray [] = []"
| "SerializeJSONArray (x # xs) =
     (case SerializeJSONProperty x of None \<Rightarrow> ''null'' | Some s \<Rightarrow> s) # SerializeJSONArray xs"
| "SerializeJSONObject [] = []"
| "SerializeJSONObject ((k, v) # ms) =
     (case SerializeJSONProperty v of
        None \<Rightarrow> SerializeJSONObject ms
      | Some s \<Rightarrow> (QuoteJSONString k @ CHR '':'' # s) # SerializeJSONObject ms)"

definition JSON_stringify :: "jsvalue \<Rightarrow> string option" where
  "JSON_stringify v = SerializeJSONProperty v"

subsection \<open>\<^verbatim>\<open>JSON.parse\<close>\<close>

text \<open>
  A recursive-descent reader of the JSON grammar: white space between tokens, the
  literals, strings with their escapes, integers, arrays and objects. \<open>None\<close> is the
  \<^verbatim>\<open>SyntaxError\<close>. Two restrictions follow from the value type: a number with a
  fraction or an exponent and a four-digit hexadecimal escape above code 255 have no
  value in \<^typ>\<open>jsvalue\<close> and are rejected; the members of an object are kept as
  they are written. The first argument of \<open>parse_value\<close>
  bounds the number of nested calls; \<open>JSON_parse\<close> starts it above the length of the
  text.
\<close>

definition is_ws :: "char \<Rightarrow> bool" where
  "is_ws c = (c = CHR 0x20 \<or> c = CHR 0x09 \<or> c = CHR 0x0A \<or> c = CHR 0x0D)"

definition skip_ws :: "string \<Rightarrow> string" where
  "skip_ws s = dropWhile is_ws s"

definition is_digit :: "char \<Rightarrow> bool" where
  "is_digit c = (48 \<le> (of_char c :: nat) \<and> (of_char c :: nat) \<le> 57)"

definition digit_val :: "char \<Rightarrow> nat" where
  "digit_val c = of_char c - 48"

definition hex_val :: "char \<Rightarrow> nat option" where
  "hex_val c =
     (let n = (of_char c :: nat) in
      if 48 \<le> n \<and> n \<le> 57 then Some (n - 48)
      else if 97 \<le> n \<and> n \<le> 102 then Some (n - 87)
      else if 65 \<le> n \<and> n \<le> 70 then Some (n - 55)
      else None)"

definition unescape :: "char \<Rightarrow> char option" where
  "unescape e =
     (if e = CHR 0x22 then Some (CHR 0x22)
      else if e = CHR 0x5C then Some (CHR 0x5C)
      else if e = CHR ''/'' then Some (CHR ''/'')
      else if e = CHR ''b'' then Some (CHR 0x08)
      else if e = CHR ''f'' then Some (CHR 0x0C)
      else if e = CHR ''n'' then Some (CHR 0x0A)
      else if e = CHR ''r'' then Some (CHR 0x0D)
      else if e = CHR ''t'' then Some (CHR 0x09)
      else None)"

definition unicode_escape :: "char \<Rightarrow> char \<Rightarrow> char \<Rightarrow> char \<Rightarrow> char option" where
  "unicode_escape a b c d =
     (case (hex_val a, hex_val b, hex_val c, hex_val d) of
        (Some h1, Some h2, Some h3, Some h4) \<Rightarrow>
          (let code = ((h1 * 16 + h2) * 16 + h3) * 16 + h4
           in if code < 256 then Some (char_of code) else None)
      | _ \<Rightarrow> None)"

fun parse_chars :: "string \<Rightarrow> (string \<times> string) option" where
  "parse_chars [] = None"
| "parse_chars (c # cs) =
     (if c = CHR 0x22 then Some ([], cs)
      else if c = CHR 0x5C then
        (case cs of
           [] \<Rightarrow> None
         | e # cs1 \<Rightarrow>
             if e = CHR ''u'' then
               (case cs1 of
                  h1 # h2 # h3 # h4 # cs2 \<Rightarrow>
                    (case unicode_escape h1 h2 h3 h4 of
                       None \<Rightarrow> None
                     | Some u \<Rightarrow> map_option (\<lambda>(s, r). (u # s, r)) (parse_chars cs2))
                | _ \<Rightarrow> None)
             else
               (case unescape e of
                  None \<Rightarrow> None
                | Some u \<Rightarrow> map_option (\<lambda>(s, r). (u # s, r)) (parse_chars cs1)))
      else if (of_char c :: nat) < 32 then None
      else map_option (\<lambda>(s, r). (c # s, r)) (parse_chars cs))"

definition parse_digits :: "string \<Rightarrow> (nat \<times> string) option" where
  "parse_digits s =
     (let ds = takeWhile is_digit s; rest = dropWhile is_digit s in
      if ds = [] then None
      else if hd ds = CHR ''0'' \<and> length ds > 1 then None
      else if rest \<noteq> [] \<and> hd rest \<in> {CHR ''.'', CHR ''e'', CHR ''E''} then None
      else Some (foldl (\<lambda>a c. 10 * a + digit_val c) 0 ds, rest))"

definition parse_number :: "string \<Rightarrow> (jsvalue \<times> string) option" where
  "parse_number s =
     (case s of
        [] \<Rightarrow> None
      | c # cs \<Rightarrow>
          if c = CHR ''-''
          then map_option (\<lambda>(n, r). (JNum (- int n), r)) (parse_digits cs)
          else map_option (\<lambda>(n, r). (JNum (int n), r)) (parse_digits s))"

definition parse_literal :: "string \<Rightarrow> jsvalue \<Rightarrow> string \<Rightarrow> (jsvalue \<times> string) option" where
  "parse_literal w v s =
     (if take (length w) s = w then Some (v, drop (length w) s) else None)"

fun parse_value :: "nat \<Rightarrow> string \<Rightarrow> (jsvalue \<times> string) option"
  and parse_elements :: "nat \<Rightarrow> string \<Rightarrow> (jsvalue list \<times> string) option"
  and parse_members :: "nat \<Rightarrow> string \<Rightarrow> ((string \<times> jsvalue) list \<times> string) option" where
  "parse_value 0 s = None"
| "parse_value (Suc f) s =
     (case skip_ws s of
        [] \<Rightarrow> None
      | c # cs \<Rightarrow>
          if c = CHR 0x22 then map_option (\<lambda>(x, r). (JStr x, r)) (parse_chars cs)
          else if c = CHR ''['' then
            (case skip_ws cs of
               [] \<Rightarrow> None
             | d # ds \<Rightarrow>
                 if d = CHR '']'' then Some (JArr [], ds)
                 else map_option (\<lambda>(xs, r). (JArr xs, r)) (parse_elements f cs))
          else if c = CHR ''{'' then
            (case skip_ws cs of
               [] \<Rightarrow> None
             | d # ds \<Rightarrow>
                 if d = CHR ''}'' then Some (JObj [], ds)
                 else map_option (\<lambda>(ms, r). (JObj ms, r)) (parse_members f cs))
          else if c = CHR ''n'' then parse_literal ''null'' JNull (c # cs)
          else if c = CHR ''t'' then parse_literal ''true'' (JBool True) (c # cs)
          else if c = CHR ''f'' then parse_literal ''false'' (JBool False) (c # cs)
          else parse_number (c # cs))"
| "parse_elements 0 s = None"
| "parse_elements (Suc f) s =
     (case parse_value f s of
        None \<Rightarrow> None
      | Some (v, r) \<Rightarrow>
          (case skip_ws r of
             [] \<Rightarrow> None
           | d # ds \<Rightarrow>
               if d = CHR '']'' then Some ([v], ds)
               else if d = CHR '','' then
                 map_option (\<lambda>(vs, r'). (v # vs, r')) (parse_elements f ds)
               else None))"
| "parse_members 0 s = None"
| "parse_members (Suc f) s =
     (case skip_ws s of
        [] \<Rightarrow> None
      | q # qs \<Rightarrow>
          if q \<noteq> CHR 0x22 then None
          else
            (case parse_chars qs of
               None \<Rightarrow> None
             | Some (k, r0) \<Rightarrow>
                 (case skip_ws r0 of
                    [] \<Rightarrow> None
                  | col # r1 \<Rightarrow>
                      if col \<noteq> CHR '':'' then None
                      else
                        (case parse_value f r1 of
                           None \<Rightarrow> None
                         | Some (v, r) \<Rightarrow>
                             (case skip_ws r of
                                [] \<Rightarrow> None
                              | d # ds \<Rightarrow>
                                  if d = CHR ''}'' then Some ([(k, v)], ds)
                                  else if d = CHR '','' then
                                    map_option (\<lambda>(ms, r'). ((k, v) # ms, r'))
                                      (parse_members f ds)
                                  else None)))))"

definition JSON_parse :: "string \<Rightarrow> jsvalue option" where
  "JSON_parse s =
     (case parse_value (Suc (length s)) s of
        None \<Rightarrow> None
      | Some (v, r) \<Rightarrow> if skip_ws r = [] then Some v else None)"

text \<open>
  The JSON values proper: everything but \<^verbatim>\<open>undefined\<close>, at any depth.
\<close>

fun json_value :: "jsvalue \<Rightarrow> bool"
  and json_elements :: "jsvalue list \<Rightarrow> bool"
  and json_members :: "(string \<times> jsvalue) list \<Rightarrow> bool" where
  "json_value JUndefined = False"
| "json_value JNull = True"
| "json_value (JBool b) = True"
| "json_value (JNum n) = True"
| "json_value (JStr s) = True"
| "json_value (JArr xs) = json_elements xs"
| "json_value (JObj ms) = json_members ms"
| "json_elements [] = True"
| "json_elements (x # xs) = (json_value x \<and> json_elements xs)"
| "json_members [] = True"
| "json_members ((k, v) # ms) = (json_value v \<and> json_members ms)"

section \<open>MD5\<close>















section \<open>The table and the prepared statements\<close>

text \<open>
  One row of the table \<^verbatim>\<open>cache\<close>. The column \<^verbatim>\<open>value\<close> (the serialized
  text) is the field \<open>value_text\<close>.
\<close>

record row =
  key :: string
  value_text :: string
  expires_at :: int
  created_at :: int
  accessed_at :: int
  hit_count :: int

text \<open>
  \<^verbatim>\<open>INSERT OR REPLACE INTO cache (key, value, expires_at, accessed_at, hit_count)
  VALUES (?, ?, ?, unixepoch(), 1)\<close>: the row that holds the primary key, if any, is
  deleted and a new row is inserted; \<^verbatim>\<open>created_at\<close> is not among the listed
  columns and takes its default \<^verbatim>\<open>unixepoch()\<close>.
\<close>

definition stmt_set :: "string \<Rightarrow> string \<Rightarrow> int \<Rightarrow> int \<Rightarrow> row list \<Rightarrow> row list" where
  "stmt_set k v expiresAt now rows =
     filter (\<lambda>r. key r \<noteq> k) rows @
       [\<lparr>key = k, value_text = v, expires_at = expiresAt, created_at = now,
         accessed_at = now, hit_count = 1\<rparr>]"

text \<open>\<^verbatim>\<open>SELECT value, expires_at, hit_count FROM cache WHERE key = ? AND expires_at > unixepoch()\<close>\<close>

definition stmt_get :: "string \<Rightarrow> int \<Rightarrow> row list \<Rightarrow> row option" where
  "stmt_get k now rows = find (\<lambda>r. key r = k \<and> expires_at r > now) rows"

text \<open>\<^verbatim>\<open>UPDATE cache SET accessed_at = unixepoch(), hit_count = hit_count + 1 WHERE key = ?\<close>\<close>

definition stmt_updateAccess :: "string \<Rightarrow> int \<Rightarrow> row list \<Rightarrow> row list" where
  "stmt_updateAccess k now rows =
     map (\<lambda>r. if key r = k then r\<lparr>accessed_at := now, hit_count := hit_count r + 1\<rparr> else r) rows"

text \<open>\<^verbatim>\<open>DELETE FROM cache WHERE key = ?\<close>, with the number of rows changed.\<close>

definition stmt_delete :: "string \<Rightarrow> row list \<Rightarrow> row list \<times> int" where
  "stmt_delete k rows =
     (filter (\<lambda>r. key r \<noteq> k) rows, int (length (filter (\<lambda>r. key r = k) rows)))"

text \<open>\<^verbatim>\<open>SELECT 1 FROM cache WHERE key = ? AND expires_at > unixepoch()\<close>\<close>

definition stmt_has :: "string \<Rightarrow> int \<Rightarrow> row list \<Rightarrow> row option" where
  "stmt_has k now rows = find (\<lambda>r. key r = k \<and> expires_at r > now) rows"

text \<open>\<^verbatim>\<open>DELETE FROM cache\<close>\<close>

definition stmt_clear :: "row list \<Rightarrow> row list" where
  "stmt_clear rows = []"

text \<open>\<^verbatim>\<open>DELETE FROM cache WHERE expires_at <= unixepoch()\<close>, with the number of rows changed.\<close>

definition stmt_cleanup :: "int \<Rightarrow> row list \<Rightarrow> row list \<times> int" where
  "stmt_cleanup now rows =
     (filter (\<lambda>r. \<not> expires_at r \<le> now) rows,
      int (length (filter (\<lambda>r. expires_at r \<le> now) rows)))"

text \<open>
  The aggregate row of the statistics query: \<^verbatim>\<open>COUNT(*)\<close>, the two conditional
  sums, \<^verbatim>\<open>AVG(LENGTH(value))\<close> and \<^verbatim>\<open>SUM(hit_count)\<close>. Over an empty table
  \<^verbatim>\<open>SUM\<close> and \<^verbatim>\<open>AVG\<close> are \<^verbatim>\<open>NULL\<close>, here \<open>None\<close>. The average is a
  floating-point quotient (see \<open>binary64_div\<close> below).
\<close>

definition round_half_even :: "rat \<Rightarrow> int" where
  "round_half_even x =
     (let f = \<lfloor>x\<rfloor>; r = x - of_int f in
      if r < 1 / 2 then f
      else if 1 / 2 < r then f + 1
      else if even f then f else f + 1)"

definition pow2 :: "int \<Rightarrow> rat" where
  "pow2 e = (if 0 \<le> e then 2 ^ nat e else 1 / 2 ^ nat (- e))"

text \<open>
  The IEEE 754 binary64 quotient of two integers that are themselves binary64 numbers,
  the divisor positive: the exact quotient, rounded to 53 significant bits, ties to even.
  The result is given as the rational number that the floating-point value denotes.
  \<open>binary64_pos\<close> finds the exponent \<open>e\<close> with \<open>2 ^ 52 \<le> q / 2 ^ e < 2 ^ 53\<close> from the
  bit lengths of the operands.
\<close>

definition binary64_pos :: "int \<Rightarrow> int \<Rightarrow> rat" where
  "binary64_pos a b =
     (let q = of_int a / of_int b;
          e0 = bitlen a - bitlen b;
          e = (if pow2 e0 \<le> q then e0 else e0 - 1) - 52
      in of_int (round_half_even (q / pow2 e)) * pow2 e)"

definition binary64_div :: "int \<Rightarrow> int \<Rightarrow> rat" where
  "binary64_div a b =
     (if b \<le> 0 \<or> a = 0 then 0
      else if a < 0 then - binary64_pos (- a) b
      else binary64_pos a b)"

definition sum_int :: "int list \<Rightarrow> int" where
  "sum_int xs = foldr (+) xs 0"

definition stmt_stats ::
  "int \<Rightarrow> row list \<Rightarrow> int \<times> int option \<times> int option \<times> rat option \<times> int option" where
  "stmt_stats now rows =
     (if rows = [] then (0, None, None, None, None)
      else
        (int (length rows),
         Some (sum_int (map (\<lambda>r. if expires_at r > now then 1 else 0) rows)),
         Some (sum_int (map (\<lambda>r. if expires_at r \<le> now then 1 else 0) rows)),
         Some (binary64_div (sum_int (map (\<lambda>r. int (length (value_text r))) rows))
                 (int (length rows))),
         Some (sum_int (map hit_count rows))))"

text \<open>
  \<^verbatim>\<open>SELECT ... FROM cache WHERE expires_at > unixepoch() ORDER BY accessed_at DESC LIMIT ?\<close>.
  Rows with the same \<^verbatim>\<open>accessed_at\<close> are taken in rowid order; a negative limit is
  no limit.
\<close>

definition stmt_getAll :: "int \<Rightarrow> int \<Rightarrow> row list \<Rightarrow> row list" where
  "stmt_getAll limit now rows =
     (let hits = sort_key (\<lambda>r. - accessed_at r) (filter (\<lambda>r. expires_at r > now) rows)
      in if limit < 0 then hits else take (nat limit) hits)"

section \<open>The class \<^verbatim>\<open>SQLiteCache\<close>\<close>

text \<open>
  The errors the methods throw: \<^verbatim>\<open>Error('Cache not initialized')\<close>, and one wrapped
  error per method, thrown by its \<^verbatim>\<open>catch\<close> block
  (\<^verbatim>\<open>Failed to set cache: ...\<close> and so on). \<open>TypeError\<close> and \<open>Thrown\<close> are
  errors raised outside the engine.
\<close>

datatype error =
    CacheNotInitialized
  | FailedToInitialize
  | FailedToSet
  | FailedToGet
  | FailedToDelete
  | FailedToCheck
  | FailedToClear
  | FailedToGetStats
  | FailedToGetAllEntries
  | CleanupFailed
  | TypeError
  | Thrown string

text \<open>
  The fields of the object. \<open>db\<close> is \<open>None\<close> for \<^verbatim>\<open>null\<close> and otherwise holds
  the rows of the table behind the open connection. \<open>statements\<close> tells whether
  \<^verbatim>\<open>this.statements\<close> holds usable prepared statements: it is false while the
  object is \<^verbatim>\<open>{}\<close> and after the statements have been finalized, and then every
  \<^verbatim>\<open>this.statements.x.run(...)\<close> throws. \<open>cleanupTimer\<close> tells whether the
  interval timer is set.
\<close>

record SQLiteCache =
  dbPath :: string
  defaultTTL :: int
  cleanupInterval :: int
  db :: "row list option"
  cleanupTimer :: bool
  statements :: bool

text \<open>\<^verbatim>\<open>x || d\<close> for an optional number: \<^verbatim>\<open>null\<close>, \<^verbatim>\<open>undefined\<close> and 0 are falsy.\<close>

definition js_or :: "int option \<Rightarrow> int \<Rightarrow> int" where
  "js_or x d = (case x of None \<Rightarrow> d | Some v \<Rightarrow> if v = 0 then d else v)"

record cache_options =
  opt_defaultTTL :: "int option"
  opt_cleanupInterval :: "int option"

definition SQLiteCache_constructor :: "string option \<Rightarrow> cache_options \<Rightarrow> SQLiteCache" where
  "SQLiteCache_constructor path options =
     \<lparr>dbPath = (case path of None \<Rightarrow> '':memory:'' | Some p \<Rightarrow> p),
      defaultTTL = js_or (opt_defaultTTL options) 3600,
      cleanupInterval = js_or (opt_cleanupInterval options) 300000,
      db = None,
      cleanupTimer = False,
      statements = False\<rparr>"

text \<open>
  What \<^verbatim>\<open>init\<close> meets in the storage is given by its first argument:
  \<^item> \<open>Unreachable\<close>: creating the directory or opening the database throws, before
    \<^verbatim>\<open>this.db\<close> is assigned;
  \<^item> \<open>SchemaFailure\<close>: the database opens and \<^verbatim>\<open>this.db\<close> is assigned, then one
    of the \<^verbatim>\<open>exec\<close> or \<^verbatim>\<open>prepare\<close> calls throws, before
    \<^verbatim>\<open>this.statements\<close> is assigned;
  \<^item> \<open>Ready rows\<close>: every step succeeds, and the table holds \<open>rows\<close> (none for a new
    in-memory database, the stored rows for a file).
\<close>

datatype storage = Unreachable | SchemaFailure | Ready "row list"

definition SQLiteCache_startCleanup :: "SQLiteCache \<Rightarrow> SQLiteCache" where
  "SQLiteCache_startCleanup c = c\<lparr>cleanupTimer := True\<rparr>"

definition SQLiteCache_prepareStatements :: "SQLiteCache \<Rightarrow> SQLiteCache" where
  "SQLiteCache_prepareStatements c = c\<lparr>statements := True\<rparr>"

definition SQLiteCache_init :: "storage \<Rightarrow> SQLiteCache \<Rightarrow> (error + bool) \<times> SQLiteCache" where
  "SQLiteCache_init st c =
     (case st of
        Unreachable \<Rightarrow> (Inl FailedToInitialize, c)
      | SchemaFailure \<Rightarrow>
          (Inl FailedToInitialize,
           c\<lparr>db := Some (case db c of None \<Rightarrow> [] | Some rows \<Rightarrow> rows)\<rparr>)
      | Ready rows \<Rightarrow> (Inr True, SQLiteCache_startCleanup (SQLiteCache_prepareStatements (c\<lparr>db := Some rows\<rparr>))))"

text \<open>
  The methods. The argument \<open>ttl\<close> is \<open>None\<close> when it is omitted, \<^verbatim>\<open>null\<close> or
  \<^verbatim>\<open>undefined\<close>. Binding \<^verbatim>\<open>undefined\<close>, the serialization of
  \<^verbatim>\<open>undefined\<close>, to a statement parameter throws.
\<close>

definition SQLiteCache_set ::
  "string \<Rightarrow> jsvalue \<Rightarrow> int option \<Rightarrow> int \<Rightarrow> SQLiteCache \<Rightarrow> (error + bool) \<times> SQLiteCache" where
  "SQLiteCache_set k v ttl now c =
     (case db c of
        None \<Rightarrow> (Inl CacheNotInitialized, c)
      | Some rows \<Rightarrow>
          (let actualTTL = js_or ttl (defaultTTL c);
               expiresAt = now + actualTTL;
               serializedValue = JSON_stringify v
           in if \<not> statements c then (Inl FailedToSet, c)
              else
                (case serializedValue of
                   None \<Rightarrow> (Inl FailedToSet, c)
                 | Some serialized \<Rightarrow>
                     (Inr True, c\<lparr>db := Some (stmt_set k serialized expiresAt now rows)\<rparr>))))"

definition SQLiteCache_get ::
  "string \<Rightarrow> int \<Rightarrow> SQLiteCache \<Rightarrow> (error + jsvalue) \<times> SQLiteCache" where
  "SQLiteCache_get k now c =
     (case db c of
        None \<Rightarrow> (Inl CacheNotInitialized, c)
      | Some rows \<Rightarrow>
          if \<not> statements c then (Inl FailedToGet, c)
          else
            (case stmt_get k now rows of
               None \<Rightarrow> (Inr JNull, c)
             | Some r \<Rightarrow>
                 (let c' = c\<lparr>db := Some (stmt_updateAccess k now rows)\<rparr>
                  in case JSON_parse (value_text r) of
                       None \<Rightarrow> (Inl FailedToGet, c')
                     | Some v \<Rightarrow> (Inr v, c'))))"

definition SQLiteCache_delete ::
  "string \<Rightarrow> SQLiteCache \<Rightarrow> (error + bool) \<times> SQLiteCache" where
  "SQLiteCache_delete k c =
     (case db c of
        None \<Rightarrow> (Inl CacheNotInitialized, c)
      | Some rows \<Rightarrow>
          if \<not> statements c then (Inl FailedToDelete, c)
          else
            (case stmt_delete k rows of
               (rows', changes) \<Rightarrow> (Inr (changes > 0), c\<lparr>db := Some rows'\<rparr>)))"

definition SQLiteCache_has ::
  "string \<Rightarrow> int \<Rightarrow> SQLiteCache \<Rightarrow> (error + bool) \<times> SQLiteCache" where
  "SQLiteCache_has k now c =
     (case db c of
        None \<Rightarrow> (Inl CacheNotInitialized, c)
      | Some rows \<Rightarrow>
          if \<not> statements c then (Inl FailedToCheck, c)
          else (Inr (stmt_has k now rows \<noteq> None), c))"

definition SQLiteCache_clear :: "SQLiteCache \<Rightarrow> (error + bool) \<times> SQLiteCache" where
  "SQLiteCache_clear c =
     (case db c of
        None \<Rightarrow> (Inl CacheNotInitialized, c)
      | Some rows \<Rightarrow>
          if \<not> statements c then (Inl FailedToClear, c)
          else (Inr True, c\<lparr>db := Some (stmt_clear rows)\<rparr>))"

text \<open>
  \<^verbatim>\<open>stats\<close>. \<^verbatim>\<open>Math.round\<close> rounds half up; \<^verbatim>\<open>toFixed(2)\<close> takes the
  integer \<open>n\<close> for which \<open>n / 100\<close> is nearest to the number, the larger one of two,
  and prints it with two decimals. The quotient \<^verbatim>\<open>total_hits / total\<close> is a
  floating-point division.
\<close>

definition Math_round :: "rat \<Rightarrow> int" where
  "Math_round x = \<lfloor>x + 1 / 2\<rfloor>"

definition hundredths :: "rat \<Rightarrow> int" where
  "hundredths x = \<lfloor>x * 100 + 1 / 2\<rfloor>"

definition fixed2 :: "int \<Rightarrow> string" where
  "fixed2 n =
     digits (nat (n div 100)) @ ''.'' @
       [hex_digit (nat (n mod 100 div 10)), hex_digit (nat (n mod 10))]"

definition toFixed2 :: "rat \<Rightarrow> string" where
  "toFixed2 x =
     (if x < 0 then CHR ''-'' # fixed2 (hundredths (- x)) else fixed2 (hundredths x))"

record cache_stats =
  total :: int
  active :: int
  expired :: int
  avg_size :: int
  total_hits :: int
  hit_rate :: string

definition SQLiteCache_stats ::
  "int \<Rightarrow> SQLiteCache \<Rightarrow> (error + cache_stats) \<times> SQLiteCache" where
  "SQLiteCache_stats now c =
     (case db c of
        None \<Rightarrow> (Inl CacheNotInitialized, c)
      | Some rows \<Rightarrow>
          if \<not> statements c then (Inl FailedToGetStats, c)
          else
            (case stmt_stats now rows of
               (s_total, s_active, s_expired, s_avg_size, s_total_hits) \<Rightarrow>
                 (Inr \<lparr>total = js_or (Some s_total) 0,
                       active = js_or s_active 0,
                       expired = js_or s_expired 0,
                       avg_size = Math_round (case s_avg_size of None \<Rightarrow> 0 | Some a \<Rightarrow> a),
                       total_hits = js_or s_total_hits 0,
                       hit_rate =
                         (if s_total > 0
                          then toFixed2 (binary64_div (js_or s_total_hits 0) s_total)
                          else ''0.00'')\<rparr>,
                  c)))"

text \<open>
  \<^verbatim>\<open>getAllEntries\<close>. The three timestamps become \<^verbatim>\<open>Date\<close> objects, given here
  by their time value in milliseconds.
\<close>

record cache_entry =
  entry_key :: string
  entry_value :: jsvalue
  entry_expires_at :: int
  entry_created_at :: int
  entry_accessed_at :: int
  entry_hit_count :: int

fun map_rows :: "row list \<Rightarrow> cache_entry list option" where
  "map_rows [] = Some []"
| "map_rows (r # rs) =
     (case JSON_parse (value_text r) of
        None \<Rightarrow> None
      | Some v \<Rightarrow>
          map_option
            (\<lambda>es. \<lparr>entry_key = key r, entry_value = v,
                    entry_expires_at = expires_at r * 1000,
                    entry_created_at = created_at r * 1000,
                    entry_accessed_at = accessed_at r * 1000,
                    entry_hit_count = hit_count r\<rparr> # es)
            (map_rows rs))"

definition SQLiteCache_getAllEntries ::
  "int option \<Rightarrow> int \<Rightarrow> SQLiteCache \<Rightarrow> (error + cache_entry list) \<times> SQLiteCache" where
  "SQLiteCache_getAllEntries limit now c =
     (case db c of
        None \<Rightarrow> (Inl CacheNotInitialized, c)
      | Some rows \<Rightarrow>
          if \<not> statements c then (Inl FailedToGetAllEntries, c)
          else
            (case map_rows (stmt_getAll (case limit of None \<Rightarrow> 50 | Some l \<Rightarrow> l) now rows) of
               None \<Rightarrow> (Inl FailedToGetAllEntries, c)
             | Some entries \<Rightarrow> (Inr entries, c)))"

definition SQLiteCache_cleanup :: "int \<Rightarrow> SQLiteCache \<Rightarrow> (error + int) \<times> SQLiteCache" where
  "SQLiteCache_cleanup now c =
     (case db c of
        None \<Rightarrow> (Inr 0, c)
      | Some rows \<Rightarrow>
          if \<not> statements c then (Inl CleanupFailed, c)
          else
            (case stmt_cleanup now rows of
               (rows', changes) \<Rightarrow> (Inr changes, c\<lparr>db := Some rows'\<rparr>)))"

definition SQLiteCache_close :: "SQLiteCache \<Rightarrow> SQLiteCache" where
  "SQLiteCache_close c =
     (let c1 = (if cleanupTimer c then c\<lparr>cleanupTimer := False\<rparr> else c)
      in case db c1 of
           None \<Rightarrow> c1
         | Some rows \<Rightarrow> c1\<lparr>statements := False, db := None\<rparr>)"


text \<open>
  The calls of the engine that C5 and C7 quantify over, and the engine after a call.
\<close>

datatype call =
    Set string jsvalue "int option"
  | Get string
  | Has string
  | Delete string
  | Clear
  | Cleanup
  | Stats
  | GetAllEntries "int option"

fun perform :: "call \<Rightarrow> int \<Rightarrow> SQLiteCache \<Rightarrow> SQLiteCache" where
  "perform (Set k v ttl) now c = snd (SQLiteCache_set k v ttl now c)"
| "perform (Get k) now c = snd (SQLiteCache_get k now c)"
| "perform (Has k) now c = snd (SQLiteCache_has k now c)"
| "perform (Delete k) now c = snd (SQLiteCache_delete k c)"
| "perform Clear now c = snd (SQLiteCache_clear c)"
| "perform Cleanup now c = snd (SQLiteCache_cleanup now c)"
| "perform Stats now c = snd (SQLiteCache_stats now c)"
| "perform (GetAllEntries limit) now c = snd (SQLiteCache_getAllEntries limit now c)"

text \<open>The row stored under a key, and the table of an engine (empty when there is none).\<close>

definition row_of :: "string \<Rightarrow> row list \<Rightarrow> row option" where
  "row_of k rows = find (\<lambda>r. key r = k) rows"

definition table :: "SQLiteCache \<Rightarrow> row list" where
  "table c = (case db c of None \<Rightarrow> [] | Some rows \<Rightarrow> rows)"

text \<open>An engine after a successful \<^verbatim>\<open>init\<close>: the connection is open and the statements are prepared.\<close>

definition initialized :: "SQLiteCache \<Rightarrow> bool" where
  "initialized c = (db c \<noteq> None \<and> statements c)"

text \<open>The primary key: no two rows share a key.\<close>

definition primary_key :: "row list \<Rightarrow> bool" where
  "primary_key rows = distinct (map key rows)"

section \<open>The middleware\<close>

text \<open>
  The part of the request that the middleware and the default key generator read:
  \<^verbatim>\<open>req.method\<close> and \<^verbatim>\<open>req.originalUrl\<close>.
\<close>

record request =
  req_method :: string
  originalUrl :: string

text \<open>
  The options of \<^verbatim>\<open>createCacheMiddleware\<close>; a field is \<open>None\<close> when the option is
  not given, and the destructuring default applies. A key generator is a JavaScript
  function and may throw: it returns \<open>Inl\<close> the error or \<open>Inr\<close> the key.
\<close>

record middleware_options =
  keyGenerator :: "(request \<Rightarrow> error + string) option"
  ttl :: "int option"
  condition :: "(request \<Rightarrow> bool) option"
  skipSuccessful :: "bool option"

definition default_keyGenerator :: "request \<Rightarrow> error + string" where
  "default_keyGenerator req = Inr (req_method req @ '':'' @ originalUrl req)"

text \<open>
  The wrapped unit of work is what runs after \<^verbatim>\<open>next()\<close>: it ends by calling
  \<^verbatim>\<open>res.json(data)\<close> or \<^verbatim>\<open>res.send(data)\<close> with some status code set.
\<close>

datatype writer = Json | Send

record handler_result =
  via :: writer
  statusCode :: int
  data :: jsvalue

text \<open>
  What reaches the client: the status, the headers that the middleware has set
  (\<^verbatim>\<open>X-Cache-Hit\<close> and \<^verbatim>\<open>X-Cache-Key\<close>), the payload, and the original method
  of \<^verbatim>\<open>res\<close> that wrote it.
\<close>

record response =
  res_status :: int
  res_headers :: "(string \<times> string) list"
  res_body :: jsvalue
  res_writer :: writer

text \<open>
  The outcome of one request: \<open>Hit\<close>, the cached value is sent and the unit of work is
  not invoked; \<open>Forwarded\<close>, the unit of work is invoked and its result is sent;
  \<open>Propagated\<close>, the middleware throws to its caller and the unit of work is not invoked.
\<close>

datatype outcome = Hit response | Forwarded response | Propagated error

definition forward :: "(string \<times> string) list \<Rightarrow> handler_result \<Rightarrow> outcome" where
  "forward hs h =
     Forwarded \<lparr>res_status = statusCode h, res_headers = hs, res_body = data h,
                res_writer = via h\<rparr>"

text \<open>
  The patched \<^verbatim>\<open>res.send\<close> and \<^verbatim>\<open>res.json\<close>: both restore the original methods,
  store the payload of a successful response, and call the original method with the
  payload. \<^verbatim>\<open>res.send\<close> parses a string payload first. The two headers are set after
  \<^verbatim>\<open>cache.set\<close> returns; an error of \<^verbatim>\<open>JSON.parse\<close> or \<^verbatim>\<open>cache.set\<close> is
  caught and logged.
\<close>

definition intercepted ::
  "string \<Rightarrow> int \<Rightarrow> bool \<Rightarrow> handler_result \<Rightarrow> int \<Rightarrow> SQLiteCache \<Rightarrow> outcome \<times> SQLiteCache" where
  "intercepted cacheKey ttl_opt skip h now c =
     (if \<not> skip \<and> statusCode h \<ge> 200 \<and> statusCode h < 300 then
        (case (case (via h, data h) of
                 (Send, JStr s) \<Rightarrow> JSON_parse s
               | _ \<Rightarrow> Some (data h)) of
           None \<Rightarrow> (forward [] h, c)
         | Some parsedData \<Rightarrow>
             (case SQLiteCache_set cacheKey parsedData (Some ttl_opt) now c of
                (Inl err, c') \<Rightarrow> (forward [] h, c')
              | (Inr ok, c') \<Rightarrow>
                  (forward [(''X-Cache-Hit'', ''false''), (''X-Cache-Key'', cacheKey)] h, c')))
      else (forward [] h, c))"

text \<open>
  The destructuring defaults of the options:
  \<^verbatim>\<open>keyGenerator = (req) => `${req.method}:${req.originalUrl}`\<close>, \<^verbatim>\<open>ttl = 300\<close>,
  \<^verbatim>\<open>condition = () => true\<close> and \<^verbatim>\<open>skipSuccessful = false\<close>.
\<close>

definition the_keyGenerator :: "middleware_options \<Rightarrow> request \<Rightarrow> error + string" where
  "the_keyGenerator options =
     (case keyGenerator options of None \<Rightarrow> default_keyGenerator | Some g \<Rightarrow> g)"

definition the_ttl :: "middleware_options \<Rightarrow> int" where
  "the_ttl options = (case ttl options of None \<Rightarrow> 300 | Some t \<Rightarrow> t)"

definition the_condition :: "middleware_options \<Rightarrow> request \<Rightarrow> bool" where
  "the_condition options = (case condition options of None \<Rightarrow> (\<lambda>r. True) | Some p \<Rightarrow> p)"

definition the_skipSuccessful :: "middleware_options \<Rightarrow> bool" where
  "the_skipSuccessful options = (case skipSuccessful options of None \<Rightarrow> False | Some b \<Rightarrow> b)"

text \<open>
  The middleware, applied to a request and to the unit of work behind \<^verbatim>\<open>next\<close>.
  \<open>t_lookup\<close> is the time of \<^verbatim>\<open>cache.get\<close> and \<open>t_store\<close> the later time at which
  the unit of work writes its response. The key is derived before the \<^verbatim>\<open>try\<close>
  block is entered; an error of \<^verbatim>\<open>cache.get\<close> is caught, and \<^verbatim>\<open>next()\<close> is
  called with the methods of \<^verbatim>\<open>res\<close> not patched.
\<close>

definition createCacheMiddleware ::
  "middleware_options \<Rightarrow> request \<Rightarrow> (request \<Rightarrow> handler_result) \<Rightarrow> int \<Rightarrow> int \<Rightarrow>
     SQLiteCache \<Rightarrow> outcome \<times> SQLiteCache" where
  "createCacheMiddleware options req next t_lookup t_store cache =
     (if \<not> the_condition options req \<or> req_method req \<noteq> ''GET''
      then (forward [] (next req), cache)
      else
        (case the_keyGenerator options req of
           Inl err \<Rightarrow> (Propagated err, cache)
         | Inr cacheKey \<Rightarrow>
             (case SQLiteCache_get cacheKey t_lookup cache of
                (Inl err, cache') \<Rightarrow> (forward [] (next req), cache')
              | (Inr cached, cache') \<Rightarrow>
                  if truthy cached then
                    (Hit \<lparr>res_status = 200,
                          res_headers = [(''X-Cache-Hit'', ''true''), (''X-Cache-Key'', cacheKey)],
                          res_body = cached, res_writer = Json\<rparr>,
                     cache')
                  else
                    intercepted cacheKey (the_ttl options) (the_skipSuccessful options)
                      (next req) t_store cache')))"

section \<open>Auxiliary notions for the statements and proofs\<close>

text \<open>
  What may follow a number in a JSON text written by \<open>SerializeJSONProperty\<close>, and how
  the text of a value starts.
\<close>

definition number_end :: "string \<Rightarrow> bool" where
  "number_end r = (r = [] \<or> hd r \<in> {CHR '','', CHR '']'', CHR ''}''})"


text \<open>
  A call overwrites the key \<open>k\<close> when it is a \<^verbatim>\<open>set\<close> of \<open>k\<close>. \<open>perform_all\<close> runs
  a sequence of calls, each at its own time. \<open>same_entry r r'\<close> relates a row to a later
  state of it in which only the access accounting has moved, and only upwards.
\<close>

fun overwrites :: "string \<Rightarrow> call \<Rightarrow> bool" where
  "overwrites k (Set k' v t) = (k' = k)"
| "overwrites k other = False"

fun perform_all :: "(call \<times> int) list \<Rightarrow> SQLiteCache \<Rightarrow> SQLiteCache" where
  "perform_all [] c = c"
| "perform_all ((call, now) # rest) c = perform_all rest (perform call now c)"

definition same_entry :: "row \<Rightarrow> row \<Rightarrow> bool" where
  "same_entry r r' =
     (key r' = key r \<and> value_text r' = value_text r \<and> expires_at r' = expires_at r
      \<and> created_at r' = created_at r \<and> hit_count r \<le> hit_count r')"

text \<open>
  Engines for the examples: a new in-memory cache after \<^verbatim>\<open>init\<close>, the same
  after \<^verbatim>\<open>set('k', 5)\<close> at time 100, after a further \<^verbatim>\<open>set('j', 5, 7)\<close>
  at time 100, and after a further \<^verbatim>\<open>get('k')\<close> at time 120.
\<close>

definition fresh_engine :: SQLiteCache where
  "fresh_engine =
     snd (SQLiteCache_init (Ready []) (SQLiteCache_constructor None \<lparr>opt_defaultTTL = None, opt_cleanupInterval = None\<rparr>))"

definition one_entry :: SQLiteCache where
  "one_entry = perform (Set ''k'' (JNum 5) None) 100 fresh_engine"

definition two_entries :: SQLiteCache where
  "two_entries = perform (Set ''j'' (JNum 5) (Some 7)) 100 one_entry"


text \<open>
  A request, a unit of work and two option sets for the examples of the middleware; an
  engine that holds \<^verbatim>\<open>null\<close> under the key of that request; and two objects
  with the same properties in different orders.
\<close>

definition users_request :: request where
  "users_request = \<lparr>req_method = ''GET'', originalUrl = ''/api/users''\<rparr>"

definition users_handler :: "request \<Rightarrow> handler_result" where
  "users_handler req = \<lparr>via = Json, statusCode = 200, data = JObj [(''success'', JBool True)]\<rparr>"

definition default_options :: middleware_options where
  "default_options = \<lparr>keyGenerator = None, ttl = None, condition = None, skipSuccessful = None\<rparr>"

definition throwing_options :: middleware_options where
  "throwing_options =
     \<lparr>keyGenerator = Some (\<lambda>req. Inl (Thrown ''boom'')), ttl = None, condition = None,
      skipSuccessful = None\<rparr>"

definition cached_null :: SQLiteCache where
  "cached_null = perform (Set ''GET:/api/users'' JNull None) 100 fresh_engine"



section \<open>\<^verbatim>\<open>JSON.parse\<close> reads back what \<^verbatim>\<open>JSON.stringify\<close> writes\<close>

subsection \<open>Strings\<close>




subsection \<open>Numbers\<close>













subsection \<open>Values\<close>


lemma skip_ws_punct [simp]:
  "skip_ws (CHR '','' # r) = CHR '','' # r"
  "skip_ws (CHR '']'' # r) = CHR '']'' # r"
  "skip_ws (CHR ''}'' # r) = CHR ''}'' # r"
  "skip_ws (CHR '':'' # r) = CHR '':'' # r"
  "skip_ws (CHR 0x22 # r) = CHR 0x22 # r"
  "skip_ws [] = []"
  by (simp_all add: skip_ws_def is_ws_def)

lemma number_end_punct [simp]:
  "number_end (CHR '','' # r)" "number_end (CHR '']'' # r)" "number_end (CHR ''}'' # r)" "number_end []"
  by (simp_all add: number_end_def)








section \<open>The table under the calls of the engine\<close>

lemma fresh_engine_eq:
  "fresh_engine = \<lparr>dbPath = '':memory:'', defaultTTL = 3600, cleanupInterval = 300000,
     db = Some [], cleanupTimer = True, statements = True\<rparr>"
  by (simp add: fresh_engine_def SQLiteCache_init_def SQLiteCache_constructor_def js_or_def SQLiteCache_startCleanup_def SQLiteCache_prepareStatements_def)

lemma find_filter_implies:
  "(\<And>x. P x \<Longrightarrow> Q x) \<Longrightarrow> find P (filter Q xs) = find P xs"
  by (induction xs) auto

lemma find_append_not: "\<not> P y \<Longrightarrow> find P (xs @ [y]) = find P xs"
  by (induction xs) auto

lemma find_append_new: "P y \<Longrightarrow> (\<And>x. x \<in> set xs \<Longrightarrow> \<not> P x) \<Longrightarrow> find P (xs @ [y]) = Some y"
  by (induction xs) auto

lemma find_map_key:
  "(\<And>x. P (f x) = P x) \<Longrightarrow> find P (map f xs) = map_option f (find P xs)"
  by (induction xs) auto

lemma find_distinct_filter:
  "distinct (map g xs) \<Longrightarrow> find (\<lambda>r. g r = k) (filter Q xs) = Some r \<Longrightarrow>
     find (\<lambda>r. g r = k) xs = Some r"
proof (induction xs)
  case Nil
  then show ?case by simp
next
  case (Cons x xs)
  show ?case
  proof (cases "g x = k")
    case True
    show ?thesis
    proof (cases "Q x")
      case True
      with \<open>g x = k\<close> Cons.prems show ?thesis by simp
    next
      case False
      with Cons.prems have "find (\<lambda>r. g r = k) (filter Q xs) = Some r" by simp
      then have "r \<in> set xs \<and> g r = k"
        by (auto simp add: find_Some_iff dest: nth_mem)
      then have "k \<in> g ` set xs" by auto
      with \<open>g x = k\<close> Cons.prems(1) show ?thesis by auto
    qed
  next
    case False
    with Cons show ?thesis by (cases "Q x") auto
  qed
qed

lemma row_of_stmt_set_same:
  "row_of k (stmt_set k s e now rows) =
     Some \<lparr>key = k, value_text = s, expires_at = e, created_at = now, accessed_at = now,
           hit_count = 1\<rparr>"
  unfolding row_of_def stmt_set_def by (rule find_append_new) auto

lemma find_holds: "find P xs = Some x \<Longrightarrow> P x \<and> x \<in> set xs"
  by (induction xs) (auto split: if_splits)

lemma row_of_key: "row_of k rows = Some r \<Longrightarrow> key r = k"
  unfolding row_of_def by (drule find_holds) simp

lemma find_other_key:
  "k' \<noteq> k \<Longrightarrow> find (\<lambda>r. key r = k) (filter (\<lambda>r. key r \<noteq> k') rows) = find (\<lambda>r. key r = k) rows"
  by (rule find_filter_implies) simp

lemma row_of_stmt_set_other:
  "k' \<noteq> k \<Longrightarrow> row_of k (stmt_set k' s e now rows) = row_of k rows"
  unfolding row_of_def stmt_set_def by (simp add: find_append_not find_other_key)

lemma row_of_stmt_updateAccess:
  "row_of k (stmt_updateAccess k' now rows) =
     map_option (\<lambda>r. if k' = k then r\<lparr>accessed_at := now, hit_count := hit_count r + 1\<rparr> else r)
       (row_of k rows)"
proof -
  have "row_of k (stmt_updateAccess k' now rows) =
      map_option (\<lambda>r. if key r = k' then r\<lparr>accessed_at := now, hit_count := hit_count r + 1\<rparr> else r)
        (row_of k rows)"
    unfolding row_of_def stmt_updateAccess_def by (rule find_map_key) simp
  also have "\<dots> = map_option (\<lambda>r. if k' = k then r\<lparr>accessed_at := now, hit_count := hit_count r + 1\<rparr> else r)
       (row_of k rows)"
    by (cases "row_of k rows") (auto dest: row_of_key)
  finally show ?thesis .
qed

lemma row_of_stmt_delete:
  "row_of k (fst (stmt_delete k' rows)) = (if k' = k then None else row_of k rows)"
  unfolding row_of_def stmt_delete_def
  by (auto simp add: find_other_key find_None_iff)

lemma row_of_stmt_cleanup:
  "primary_key rows \<Longrightarrow> row_of k (fst (stmt_cleanup now rows)) = Some r \<Longrightarrow> row_of k rows = Some r"
  unfolding row_of_def stmt_cleanup_def primary_key_def
  by (simp add: find_distinct_filter)

lemma set_initialized:
  assumes "db c = Some rows" "statements c" "JSON_stringify v = Some s"
  shows "SQLiteCache_set k v t now c =
           (Inr True, c\<lparr>db := Some (stmt_set k s (now + js_or t (defaultTTL c)) now rows)\<rparr>)"
  using assms by (simp add: SQLiteCache_set_def)

lemma table_update [simp]: "table (c\<lparr>db := Some rows\<rparr>) = rows"
  by (simp add: table_def)

lemma table_set_cases:
  "table (snd (SQLiteCache_set k v t now c)) = table c \<or>
   (\<exists>s e. table (snd (SQLiteCache_set k v t now c)) = stmt_set k s e now (table c))"
  by (auto simp add: SQLiteCache_set_def table_def Let_def split: option.splits)

lemma table_get_cases:
  "table (snd (SQLiteCache_get k now c)) = table c \<or>
   table (snd (SQLiteCache_get k now c)) = stmt_updateAccess k now (table c)"
  by (auto simp add: SQLiteCache_get_def table_def Let_def split: option.splits)

lemma table_delete_cases:
  "table (snd (SQLiteCache_delete k c)) = table c \<or>
   table (snd (SQLiteCache_delete k c)) = fst (stmt_delete k (table c))"
  by (auto simp add: SQLiteCache_delete_def table_def split: option.splits prod.splits)

lemma table_clear_cases:
  "table (snd (SQLiteCache_clear c)) = table c \<or> table (snd (SQLiteCache_clear c)) = []"
  by (auto simp add: SQLiteCache_clear_def table_def stmt_clear_def split: option.splits)

lemma table_cleanup_cases:
  "table (snd (SQLiteCache_cleanup now c)) = table c \<or>
   table (snd (SQLiteCache_cleanup now c)) = fst (stmt_cleanup now (table c))"
  by (auto simp add: SQLiteCache_cleanup_def table_def split: option.splits prod.splits)

lemma table_has [simp]: "snd (SQLiteCache_has k now c) = c"
  by (auto simp add: SQLiteCache_has_def split: option.splits)

lemma table_stats [simp]: "snd (SQLiteCache_stats now c) = c"
  by (auto simp add: SQLiteCache_stats_def split: option.splits prod.splits)

lemma table_getAllEntries [simp]: "snd (SQLiteCache_getAllEntries limit now c) = c"
  by (auto simp add: SQLiteCache_getAllEntries_def split: option.splits)

lemma same_entry_refl [simp]: "same_entry r r"
  by (simp add: same_entry_def)

lemma same_entry_trans: "same_entry a b \<Longrightarrow> same_entry b c \<Longrightarrow> same_entry a c"
  by (auto simp add: same_entry_def)

lemma perform_keeps_row:
  assumes pk: "primary_key (table c)"
    and no: "\<not> overwrites k call"
    and after: "row_of k (table (perform call now c)) = Some r'"
  shows "\<exists>r. row_of k (table c) = Some r \<and> same_entry r r'"
proof (cases call)
  case (Set k' v t)
  with no have ne: "k' \<noteq> k" by simp
  from table_set_cases[of k' v t now c] after Set ne show ?thesis
    by (auto simp add: row_of_stmt_set_other)
next
  case (Get k')
  from table_get_cases[of k' now c] after Get show ?thesis
    by (auto simp add: row_of_stmt_updateAccess same_entry_def split: if_splits)
next
  case (Has k')
  with after show ?thesis by simp
next
  case (Delete k')
  from table_delete_cases[of k' c] after Delete show ?thesis
    by (auto simp add: row_of_stmt_delete split: if_splits)
next
  case Clear
  from table_clear_cases[of c] after Clear show ?thesis
    by (auto simp add: row_of_def)
next
  case Cleanup
  from table_cleanup_cases[of now c] after Cleanup pk show ?thesis
    by (auto dest: row_of_stmt_cleanup)
next
  case Stats
  with after show ?thesis by simp
next
  case (GetAllEntries l)
  with after show ?thesis by simp
qed

lemma primary_key_stmt_set: "primary_key rows \<Longrightarrow> primary_key (stmt_set k s e now rows)"
  by (auto simp add: primary_key_def stmt_set_def distinct_map_filter)

lemma map_key_updateAccess: "map key (stmt_updateAccess k now rows) = map key rows"
  by (induction rows) (auto simp add: stmt_updateAccess_def)

lemma perform_primary_key:
  assumes pk: "primary_key (table c)"
  shows "primary_key (table (perform call now c))"
proof (cases call)
  case (Set k' v t)
  from table_set_cases[of k' v t now c] pk Set show ?thesis
    by (auto simp add: primary_key_stmt_set)
next
  case (Get k')
  from table_get_cases[of k' now c] pk Get show ?thesis
    by (auto simp add: primary_key_def map_key_updateAccess)
next
  case (Delete k')
  from table_delete_cases[of k' c] pk Delete show ?thesis
    by (auto simp add: primary_key_def stmt_delete_def distinct_map_filter)
next
  case Clear
  from table_clear_cases[of c] pk Clear show ?thesis
    by (auto simp add: primary_key_def)
next
  case Cleanup
  from table_cleanup_cases[of now c] pk Cleanup show ?thesis
    by (auto simp add: primary_key_def stmt_cleanup_def distinct_map_filter)
qed (use pk in simp_all)

lemma perform_all_primary_key:
  "primary_key (table c) \<Longrightarrow> primary_key (table (perform_all calls c))"
  by (induction calls arbitrary: c) (auto simp add: perform_primary_key)

lemma perform_all_keeps_row:
  assumes "primary_key (table c)"
    and "list_all (\<lambda>(call, now). \<not> overwrites k call) calls"
    and "row_of k (table (perform_all calls c)) = Some r'"
  shows "\<exists>r. row_of k (table c) = Some r \<and> same_entry r r'"
  using assms
proof (induction calls arbitrary: c)
  case Nil
  then show ?case by simp
next
  case (Cons a calls)
  obtain call now where a: "a = (call, now)" by (cases a)
  from Cons.prems a have no: "\<not> overwrites k call"
    and rest: "list_all (\<lambda>(call, now). \<not> overwrites k call) calls"
    and after: "row_of k (table (perform_all calls (perform call now c))) = Some r'"
    by simp_all
  have "primary_key (table (perform call now c))"
    using Cons.prems(1) by (rule perform_primary_key)
  from Cons.IH[OF this rest after] obtain m where
    m: "row_of k (table (perform call now c)) = Some m" and mr: "same_entry m r'" by blast
  from perform_keeps_row[OF Cons.prems(1) no m] obtain r where
    "row_of k (table c) = Some r" "same_entry r m" by blast
  with mr show ?case by (blast intro: same_entry_trans)
qed

lemma find_conj_filter: "find (\<lambda>r. P r \<and> Q r) xs = find P (filter Q xs)"
  by (induction xs) auto

lemma stmt_get_row_of:
  "primary_key rows \<Longrightarrow> stmt_get k now rows = Some r \<Longrightarrow> row_of k rows = Some r"
  unfolding stmt_get_def row_of_def primary_key_def
  by (simp add: find_conj_filter find_distinct_filter)

lemma initializedD: "initialized c \<Longrightarrow> \<exists>rows. db c = Some rows \<and> statements c \<and> table c = rows"
  by (cases "db c") (auto simp add: initialized_def table_def)

lemma set_row:
  assumes "initialized c" "JSON_stringify v = Some s"
  shows "fst (SQLiteCache_set k v t now c) = Inr True"
    and "row_of k (table (snd (SQLiteCache_set k v t now c))) =
      Some \<lparr>key = k, value_text = s, expires_at = now + js_or t (defaultTTL c),
            created_at = now, accessed_at = now, hit_count = 1\<rparr>"
proof -
  from initializedD[OF assms(1)] obtain rows where r: "db c = Some rows" "statements c" by blast
  show "fst (SQLiteCache_set k v t now c) = Inr True"
    by (simp add: set_initialized[OF r assms(2)])
  show "row_of k (table (snd (SQLiteCache_set k v t now c))) =
      Some \<lparr>key = k, value_text = s, expires_at = now + js_or t (defaultTTL c),
            created_at = now, accessed_at = now, hit_count = 1\<rparr>"
    by (simp add: set_initialized[OF r assms(2)] row_of_stmt_set_same)
qed

lemma stringify_5: "JSON_stringify (JNum 5) = Some ''5''"
  by (simp add: JSON_stringify_def NumberToString_def digits.simps hex_digit_def)

lemma parse_5: "JSON_parse ''5'' = Some (JNum 5)"
  by (simp add: JSON_parse_def skip_ws_def is_ws_def parse_number_def parse_digits_def
      is_digit_def digit_val_def)

lemma initialized_fresh: "initialized fresh_engine"
  by (simp add: initialized_def fresh_engine_eq)

lemma one_entry_eq:
  "one_entry = \<lparr>dbPath = '':memory:'', defaultTTL = 3600, cleanupInterval = 300000,
     db = Some [\<lparr>key = ''k'', value_text = ''5'', expires_at = 3700, created_at = 100,
           accessed_at = 100, hit_count = 1\<rparr>], cleanupTimer = True, statements = True\<rparr>"
  by (simp add: one_entry_def fresh_engine_eq SQLiteCache_set_def stringify_5 js_or_def stmt_set_def)

lemma two_entries_eq:
  "two_entries = \<lparr>dbPath = '':memory:'', defaultTTL = 3600, cleanupInterval = 300000,
     db = Some [\<lparr>key = ''k'', value_text = ''5'', expires_at = 3700, created_at = 100,
           accessed_at = 100, hit_count = 1\<rparr>,
         \<lparr>key = ''j'', value_text = ''5'', expires_at = 107, created_at = 100,
           accessed_at = 100, hit_count = 1\<rparr>], cleanupTimer = True, statements = True\<rparr>"
  by (simp add: two_entries_def one_entry_eq SQLiteCache_set_def stringify_5 js_or_def stmt_set_def)

lemma primary_key_fresh: "primary_key (table fresh_engine)"
  by (simp add: fresh_engine_eq table_def primary_key_def)

section \<open>The middleware and the key generator: lemmas\<close>

lemma forward_fields:
  "forward hs h = Forwarded \<lparr>res_status = statusCode h, res_headers = hs, res_body = data h,
                res_writer = via h\<rparr>"
  by (simp add: forward_def)

lemma intercepted_forwards:
  "\<exists>hs c'. intercepted k t skip h now c = (forward hs h, c')"
  by (auto simp add: intercepted_def split: option.splits sum.splits prod.splits)

lemma middleware_outcomes:
  assumes "the_keyGenerator options req = Inr k"
  shows "(\<exists>resp c'. createCacheMiddleware options req next t1 t2 c = (Hit resp, c'))
     \<or> (\<exists>hs c'. createCacheMiddleware options req next t1 t2 c = (forward hs (next req), c'))"
proof (cases "\<not> the_condition options req \<or> req_method req \<noteq> ''GET''")
  case True
  then show ?thesis by (auto simp add: createCacheMiddleware_def)
next
  case False
  obtain res c1 where g: "SQLiteCache_get k t1 c = (res, c1)" by (cases "SQLiteCache_get k t1 c")
  show ?thesis
  proof (cases res)
    case (Inl e)
    with False assms g show ?thesis by (auto simp add: createCacheMiddleware_def)
  next
    case (Inr cached)
    show ?thesis
    proof (cases "truthy cached")
      case True
      with False assms g Inr show ?thesis by (auto simp add: createCacheMiddleware_def)
    next
      case f: False
      from intercepted_forwards[of k "the_ttl options" "the_skipSuccessful options" "next req" t2 c1]
      obtain hs c' where "intercepted k (the_ttl options) (the_skipSuccessful options) (next req) t2 c1
          = (forward hs (next req), c')" by blast
      with False assms g Inr f show ?thesis
        by (auto simp add: createCacheMiddleware_def)
    qed
  qed
qed

lemma falsy_json_values:
  "(json_value v \<and> \<not> truthy v) = (v = JNull \<or> v = JBool False \<or> v = JNum 0 \<or> v = JStr [])"
  by (cases v) auto

lemma cached_null_eq:
  "cached_null = \<lparr>dbPath = '':memory:'', defaultTTL = 3600, cleanupInterval = 300000,
     db = Some [\<lparr>key = ''GET:/api/users'', value_text = ''null'', expires_at = 3700,
           created_at = 100, accessed_at = 100, hit_count = 1\<rparr>],
     cleanupTimer = True, statements = True\<rparr>"
  by (simp add: cached_null_def fresh_engine_eq SQLiteCache_set_def JSON_stringify_def js_or_def
      stmt_set_def)

lemma parse_null: "JSON_parse ''null'' = Some JNull"
  by (simp add: JSON_parse_def skip_ws_def is_ws_def parse_literal_def)











lemma SerializeJSONProperty_None: "(SerializeJSONProperty v = None) = (v = JUndefined)"
  by (cases v) simp_all


section \<open>The floating-point quotient and its two decimals\<close>

text \<open>
  The binary64 quotient is within a relative error of \<open>2 ^ -53\<close> of the exact quotient;
  below \<open>2 ^ 45\<close> that is too little to move the quotient across a boundary between
  two neighbouring numbers of two decimals.
\<close>

lemma pow2_powi: "pow2 e = 2 powi e"
  by (simp add: pow2_def power_int_def power_one_over inverse_eq_divide)



lemma pow2_add: "pow2 (x + y) = pow2 x * pow2 y"
  by (simp add: pow2_powi power_int_add)














section \<open>The claims about the engine\<close>

subsection \<open>C1: calls on an engine that is not initialized\<close>

text \<open>
  C1 says that each of \<^verbatim>\<open>set\<close>, \<^verbatim>\<open>get\<close>, \<^verbatim>\<open>has\<close>, \<^verbatim>\<open>delete\<close>,
  \<^verbatim>\<open>clear\<close>, \<^verbatim>\<open>cleanup\<close>, \<^verbatim>\<open>stats\<close> and \<^verbatim>\<open>getAllEntries\<close> fails with the
  NotInitialized condition before a successful \<^verbatim>\<open>init\<close> and after \<^verbatim>\<open>close\<close>.
  \<^verbatim>\<open>cleanup\<close> does not: its guard is \<^verbatim>\<open>if (!this.db) return 0\<close>. On a newly
  constructed engine, and on a closed one, it returns 0.
\<close>

theorem cleanup_uninitialized_counterexample:
  "db (SQLiteCache_constructor None \<lparr>opt_defaultTTL = None, opt_cleanupInterval = None\<rparr>) = None \<and>
   fst (SQLiteCache_cleanup 0 (SQLiteCache_constructor None \<lparr>opt_defaultTTL = None, opt_cleanupInterval = None\<rparr>)) = Inr 0 \<and>
   fst (SQLiteCache_cleanup 0 (SQLiteCache_constructor None \<lparr>opt_defaultTTL = None, opt_cleanupInterval = None\<rparr>))
     \<noteq> Inl CacheNotInitialized \<and>
   fst (SQLiteCache_cleanup 0 (SQLiteCache_close fresh_engine)) = Inr 0"
  by (simp add: SQLiteCache_cleanup_def SQLiteCache_constructor_def SQLiteCache_close_def fresh_engine_eq)

text \<open>
  C1, amended: \<^verbatim>\<open>this.db\<close> is \<^verbatim>\<open>null\<close> after the constructor and after
  \<^verbatim>\<open>close\<close>, and stays so when \<^verbatim>\<open>init\<close> fails before it has opened the
  database. While \<^verbatim>\<open>this.db\<close> is \<^verbatim>\<open>null\<close>, each of \<^verbatim>\<open>set\<close>, \<^verbatim>\<open>get\<close>,
  \<^verbatim>\<open>has\<close>, \<^verbatim>\<open>delete\<close>, \<^verbatim>\<open>clear\<close>, \<^verbatim>\<open>stats\<close> and \<^verbatim>\<open>getAllEntries\<close>
  throws \<^verbatim>\<open>Cache not initialized\<close> and leaves the engine as it is, and
  \<^verbatim>\<open>cleanup\<close> returns 0 and leaves the engine as it is.
\<close>

theorem uninitialized_calls:
  "db (SQLiteCache_constructor path opts) = None \<and> db (SQLiteCache_close c0) = None \<and>
   db (snd (SQLiteCache_init Unreachable c)) = db c \<and>
   (db c = None \<longrightarrow>
      SQLiteCache_set k v t now c = (Inl CacheNotInitialized, c) \<and>
      SQLiteCache_get k now c = (Inl CacheNotInitialized, c) \<and>
      SQLiteCache_has k now c = (Inl CacheNotInitialized, c) \<and>
      SQLiteCache_delete k c = (Inl CacheNotInitialized, c) \<and>
      SQLiteCache_clear c = (Inl CacheNotInitialized, c) \<and>
      SQLiteCache_stats now c = (Inl CacheNotInitialized, c) \<and>
      SQLiteCache_getAllEntries limit now c = (Inl CacheNotInitialized, c) \<and>
      SQLiteCache_cleanup now c = (Inr 0, c))"
proof (intro conjI impI)
  show "db (SQLiteCache_constructor path opts) = None"
    by (simp add: SQLiteCache_constructor_def)
  show "db (SQLiteCache_close c0) = None"
    by (cases "db c0") (simp_all add: SQLiteCache_close_def Let_def)
  show "db (snd (SQLiteCache_init Unreachable c)) = db c"
    by (simp add: SQLiteCache_init_def)
next
  assume n: "db c = None"
  show "SQLiteCache_set k v t now c = (Inl CacheNotInitialized, c)"
    using n by (simp add: SQLiteCache_set_def)
  show "SQLiteCache_get k now c = (Inl CacheNotInitialized, c)"
    using n by (simp add: SQLiteCache_get_def)
  show "SQLiteCache_has k now c = (Inl CacheNotInitialized, c)"
    using n by (simp add: SQLiteCache_has_def)
  show "SQLiteCache_delete k c = (Inl CacheNotInitialized, c)"
    using n by (simp add: SQLiteCache_delete_def)
  show "SQLiteCache_clear c = (Inl CacheNotInitialized, c)"
    using n by (simp add: SQLiteCache_clear_def)
  show "SQLiteCache_stats now c = (Inl CacheNotInitialized, c)"
    using n by (simp add: SQLiteCache_stats_def)
  show "SQLiteCache_getAllEntries limit now c = (Inl CacheNotInitialized, c)"
    using n by (simp add: SQLiteCache_getAllEntries_def)
  show "SQLiteCache_cleanup now c = (Inr 0, c)"
    using n by (simp add: SQLiteCache_cleanup_def)
qed

theorem uninitialized_calls_witness:
  "db (SQLiteCache_close fresh_engine) = None \<and>
   SQLiteCache_set ''k'' (JNum 1) None 10 (SQLiteCache_close fresh_engine)
     = (Inl CacheNotInitialized, SQLiteCache_close fresh_engine) \<and>
   SQLiteCache_get ''k'' 10 (SQLiteCache_close fresh_engine) = (Inl CacheNotInitialized, SQLiteCache_close fresh_engine) \<and>
   SQLiteCache_stats 10 (SQLiteCache_close fresh_engine) = (Inl CacheNotInitialized, SQLiteCache_close fresh_engine) \<and>
   SQLiteCache_cleanup 10 (SQLiteCache_close fresh_engine) = (Inr 0, SQLiteCache_close fresh_engine)"
  using uninitialized_calls
    [of None "\<lparr>opt_defaultTTL = None, opt_cleanupInterval = None\<rparr>" fresh_engine
      "SQLiteCache_close fresh_engine" "''k''" "JNum 1" None 10 None]
  by simp

text \<open>
  The state in which \<^verbatim>\<open>this.db\<close> is \<^verbatim>\<open>null\<close> is not the same as "no
  successful \<^verbatim>\<open>init\<close> yet": when \<^verbatim>\<open>init\<close> fails after it has opened the
  database, \<^verbatim>\<open>this.db\<close> is set and the statements are not prepared, and the methods
  fail with their own wrapped errors.
\<close>

lemma calls_after_schema_failure:
  "db c = None \<Longrightarrow> \<not> statements c \<Longrightarrow>
   fst (SQLiteCache_init SchemaFailure c) = Inl FailedToInitialize \<and>
   fst (SQLiteCache_set k v t now (snd (SQLiteCache_init SchemaFailure c))) = Inl FailedToSet \<and>
   fst (SQLiteCache_get k now (snd (SQLiteCache_init SchemaFailure c))) = Inl FailedToGet \<and>
   fst (SQLiteCache_cleanup now (snd (SQLiteCache_init SchemaFailure c))) = Inl CleanupFailed"
  by (simp add: SQLiteCache_init_def SQLiteCache_set_def SQLiteCache_get_def
      SQLiteCache_cleanup_def)

subsection \<open>C4: the expiry that \<^verbatim>\<open>set\<close> stores\<close>




subsection \<open>C5: \<^verbatim>\<open>created_at\<close>\<close>

text \<open>
  C5 says that \<^verbatim>\<open>created_at\<close> is set when the key is first inserted and that an
  overwriting \<^verbatim>\<open>set\<close> leaves it. \<^verbatim>\<open>INSERT OR REPLACE\<close> replaces the whole row, and
  the new row takes the default \<^verbatim>\<open>unixepoch()\<close>: after \<^verbatim>\<open>set('k', 1)\<close> at time 100
  and \<^verbatim>\<open>set('k', 2)\<close> at time 200, \<^verbatim>\<open>created_at\<close> is 200.
\<close>

theorem created_at_overwrite_counterexample:
  "map created_at (table (perform (Set ''k'' (JNum 1) None) 100 fresh_engine)) = [100] \<and>
   map created_at
     (table (perform (Set ''k'' (JNum 2) None) 200
        (perform (Set ''k'' (JNum 1) None) 100 fresh_engine))) = [200]"
  by (simp add: fresh_engine_eq SQLiteCache_set_def JSON_stringify_def NumberToString_def
      digits.simps hex_digit_def js_or_def stmt_set_def table_def)

text \<open>
  C5, amended: every successful \<^verbatim>\<open>set\<close> of a key, the first as well as an overwriting
  one, stores a row whose \<^verbatim>\<open>created_at\<close> is the time of that \<^verbatim>\<open>set\<close>; and through
  any sequence of calls of \<^verbatim>\<open>set\<close> (of other keys), \<^verbatim>\<open>get\<close>, \<^verbatim>\<open>has\<close>,
  \<^verbatim>\<open>delete\<close>, \<^verbatim>\<open>clear\<close>, \<^verbatim>\<open>cleanup\<close>, \<^verbatim>\<open>stats\<close> and \<^verbatim>\<open>getAllEntries\<close>, a
  row that is still stored under the key has the \<^verbatim>\<open>created_at\<close> it had before.
\<close>

theorem created_at_reset_by_set:
  "(initialized c \<longrightarrow> JSON_stringify v = Some s \<longrightarrow>
      (\<exists>r. row_of k (table (perform (Set k v t) now c)) = Some r \<and> created_at r = now))
   \<and> (primary_key (table c) \<longrightarrow> list_all (\<lambda>(call, now). \<not> overwrites k call) calls \<longrightarrow>
        row_of k (table (perform_all calls c)) = Some r' \<longrightarrow>
        (\<exists>r. row_of k (table c) = Some r \<and> created_at r' = created_at r))"
proof (intro conjI impI)
  assume "initialized c" "JSON_stringify v = Some s"
  from set_row(2)[OF this, of k t now]
  show "\<exists>r. row_of k (table (perform (Set k v t) now c)) = Some r \<and> created_at r = now"
    by simp
next
  assume "primary_key (table c)" "list_all (\<lambda>(call, now). \<not> overwrites k call) calls"
    "row_of k (table (perform_all calls c)) = Some r'"
  from perform_all_keeps_row[OF this]
  show "\<exists>r. row_of k (table c) = Some r \<and> created_at r' = created_at r"
    by (auto simp add: same_entry_def)
qed

theorem created_at_reset_by_set_witness:
  "initialized fresh_engine \<and> JSON_stringify (JNum 5) = Some ''5'' \<and>
   (\<exists>r. row_of ''k'' (table (perform (Set ''k'' (JNum 5) None) 100 fresh_engine)) = Some r
        \<and> created_at r = 100) \<and>
   primary_key (table one_entry) \<and>
   list_all (\<lambda>(call, now). \<not> overwrites ''k'' call) [(Get ''k'', 150::int), (Cleanup, 160)] \<and>
   row_of ''k'' (table (perform_all [(Get ''k'', 150), (Cleanup, 160)] one_entry)) =
     Some \<lparr>key = ''k'', value_text = ''5'', expires_at = 3700, created_at = 100,
           accessed_at = 150, hit_count = 2\<rparr> \<and>
   (\<exists>r. row_of ''k'' (table one_entry) = Some r \<and> created_at r = 100)"
proof -
  let ?calls = "[(Get ''k'', 150), (Cleanup, 160)]"
  let ?after = "\<lparr>key = ''k'', value_text = ''5'', expires_at = 3700, created_at = 100,
           accessed_at = 150, hit_count = 2\<rparr>"
  have pk: "primary_key (table one_entry)"
    by (simp add: one_entry_eq table_def primary_key_def)
  have la: "list_all (\<lambda>(call, now). \<not> overwrites ''k'' call) ?calls"
    by simp
  have after: "row_of ''k'' (table (perform_all ?calls one_entry)) = Some ?after"
    by (simp add: one_entry_eq SQLiteCache_get_def stmt_get_def stmt_updateAccess_def parse_5
        SQLiteCache_cleanup_def stmt_cleanup_def table_def row_of_def)
  from created_at_reset_by_set [of fresh_engine "JNum 5" "''5''" "''k''" None 100 ?calls ?after]
    created_at_reset_by_set [of one_entry "JNum 5" "''5''" "''k''" None 100 ?calls ?after]
  show ?thesis
    using initialized_fresh stringify_5 pk la after by simp
qed

subsection \<open>C6: \<^verbatim>\<open>set\<close>, then \<^verbatim>\<open>get\<close>\<close>




subsection \<open>C7: \<^verbatim>\<open>hit_count\<close>\<close>

text \<open>
  C7: \<^verbatim>\<open>hit_count\<close> of a key is 1 after a \<^verbatim>\<open>set\<close> of the key, also when the
  \<^verbatim>\<open>set\<close> overwrites; a \<^verbatim>\<open>get\<close> that finds an active row of the key adds exactly
  1 to it (and a \<^verbatim>\<open>get\<close> that finds none leaves the table as it is); and no sequence
  of calls other than a \<^verbatim>\<open>set\<close> of the key decreases it while the row is stored.
  The table satisfies its primary key constraint.
\<close>

theorem hit_count_accounting:
  "(initialized c \<longrightarrow> JSON_stringify v = Some s \<longrightarrow>
      (\<exists>r. row_of k (table (perform (Set k v t) now c)) = Some r \<and> hit_count r = 1))
   \<and> (initialized c \<longrightarrow> primary_key (table c) \<longrightarrow> stmt_get k now (table c) = Some r0 \<longrightarrow>
        row_of k (table c) = Some r0 \<and>
        row_of k (table (perform (Get k) now c)) =
          Some (r0\<lparr>accessed_at := now, hit_count := hit_count r0 + 1\<rparr>))
   \<and> (stmt_get k now (table c) = None \<longrightarrow> table (perform (Get k) now c) = table c)
   \<and> (primary_key (table c) \<longrightarrow> list_all (\<lambda>(call, now). \<not> overwrites k call) calls \<longrightarrow>
        row_of k (table (perform_all calls c)) = Some r' \<longrightarrow>
        (\<exists>r. row_of k (table c) = Some r \<and> hit_count r \<le> hit_count r'))"
proof (intro conjI impI)
  assume "initialized c" "JSON_stringify v = Some s"
  from set_row(2)[OF this, of k t now]
  show "\<exists>r. row_of k (table (perform (Set k v t) now c)) = Some r \<and> hit_count r = 1"
    by simp
next
  assume i: "initialized c" and pk: "primary_key (table c)"
    and g: "stmt_get k now (table c) = Some r0"
  from initializedD[OF i] obtain rows where
    r: "db c = Some rows" "statements c" "table c = rows" by blast
  show "row_of k (table c) = Some r0"
    using pk g by (rule stmt_get_row_of)
  then show "row_of k (table (perform (Get k) now c)) =
          Some (r0\<lparr>accessed_at := now, hit_count := hit_count r0 + 1\<rparr>)"
    using r g by (auto simp add: SQLiteCache_get_def Let_def row_of_stmt_updateAccess
        split: option.splits)
next
  assume "stmt_get k now (table c) = None"
  then show "table (perform (Get k) now c) = table c"
    by (auto simp add: SQLiteCache_get_def table_def split: option.splits)
next
  assume "primary_key (table c)" "list_all (\<lambda>(call, now). \<not> overwrites k call) calls"
    "row_of k (table (perform_all calls c)) = Some r'"
  from perform_all_keeps_row[OF this]
  show "\<exists>r. row_of k (table c) = Some r \<and> hit_count r \<le> hit_count r'"
    by (auto simp add: same_entry_def)
qed

theorem hit_count_accounting_witness:
  "initialized fresh_engine \<and> JSON_stringify (JNum 5) = Some ''5'' \<and>
   (\<exists>r. row_of ''k'' (table (perform (Set ''k'' (JNum 5) None) 100 fresh_engine)) = Some r
        \<and> hit_count r = 1) \<and>
   initialized one_entry \<and> primary_key (table one_entry) \<and>
   stmt_get ''k'' 150 (table one_entry) =
     Some \<lparr>key = ''k'', value_text = ''5'', expires_at = 3700, created_at = 100,
           accessed_at = 100, hit_count = 1\<rparr> \<and>
   row_of ''k'' (table (perform (Get ''k'') 150 one_entry)) =
     Some \<lparr>key = ''k'', value_text = ''5'', expires_at = 3700, created_at = 100,
           accessed_at = 150, hit_count = 2\<rparr> \<and>
   stmt_get ''k'' 4000 (table one_entry) = None \<and>
   table (perform (Get ''k'') 4000 one_entry) = table one_entry \<and>
   list_all (\<lambda>(call, now). \<not> overwrites ''k'' call)
     [(Get ''k'', 150::int), (Set ''j'' (JNum 5) None, 155), (Cleanup, 160)] \<and>
   row_of ''k'' (table (perform_all
       [(Get ''k'', 150), (Set ''j'' (JNum 5) None, 155), (Cleanup, 160)] one_entry)) =
     Some \<lparr>key = ''k'', value_text = ''5'', expires_at = 3700, created_at = 100,
           accessed_at = 150, hit_count = 2\<rparr> \<and>
   (\<exists>r. row_of ''k'' (table one_entry) = Some r \<and> hit_count r \<le> 2)"
proof -
  let ?before = "\<lparr>key = ''k'', value_text = ''5'', expires_at = 3700, created_at = 100,
           accessed_at = 100, hit_count = 1\<rparr>"
  let ?after = "\<lparr>key = ''k'', value_text = ''5'', expires_at = 3700, created_at = 100,
           accessed_at = 150, hit_count = 2\<rparr>"
  let ?calls = "[(Get ''k'', 150), (Set ''j'' (JNum 5) None, 155), (Cleanup, 160)]"
  have i1: "initialized one_entry"
    by (simp add: initialized_def one_entry_eq)
  have pk: "primary_key (table one_entry)"
    by (simp add: one_entry_eq table_def primary_key_def)
  have g: "stmt_get ''k'' 150 (table one_entry) = Some ?before"
    by (simp add: one_entry_eq table_def stmt_get_def)
  have n: "stmt_get ''k'' 4000 (table one_entry) = None"
    by (simp add: one_entry_eq table_def stmt_get_def)
  have la: "list_all (\<lambda>(call, now). \<not> overwrites ''k'' call) ?calls"
    by simp
  have after: "row_of ''k'' (table (perform_all ?calls one_entry)) = Some ?after"
    by (simp add: one_entry_eq SQLiteCache_get_def stmt_get_def stmt_updateAccess_def parse_5
        SQLiteCache_set_def stringify_5 js_or_def stmt_set_def SQLiteCache_cleanup_def stmt_cleanup_def
        table_def row_of_def)
  from hit_count_accounting [of fresh_engine "JNum 5" "''5''" "''k''" None 100 ?before ?calls ?after]
    hit_count_accounting [of one_entry "JNum 5" "''5''" "''k''" None 150 ?before ?calls ?after]
    hit_count_accounting [of one_entry "JNum 5" "''5''" "''k''" None 4000 ?before ?calls ?after]
  show ?thesis
    using initialized_fresh stringify_5 i1 pk g n la after by simp
qed

subsection \<open>C8: \<^verbatim>\<open>cleanup\<close>\<close>

text \<open>
  C8: on an initialized engine \<^verbatim>\<open>cleanup()\<close> returns the number of rows whose
  \<^verbatim>\<open>expires_at\<close> is at most the current time, the table afterwards is the table before
  without exactly those rows, and a second \<^verbatim>\<open>cleanup()\<close> at the same time returns 0
  and removes nothing.
\<close>

theorem cleanup_removes_expired:
  assumes "initialized c"
  shows "fst (SQLiteCache_cleanup now c) = Inr (int (length (filter (\<lambda>r. expires_at r \<le> now) (table c))))
     \<and> table (snd (SQLiteCache_cleanup now c)) = filter (\<lambda>r. \<not> expires_at r \<le> now) (table c)
     \<and> int (length (table c)) =
          int (length (table (snd (SQLiteCache_cleanup now c)))) +
          int (length (filter (\<lambda>r. expires_at r \<le> now) (table c)))
     \<and> SQLiteCache_cleanup now (snd (SQLiteCache_cleanup now c)) = (Inr 0, snd (SQLiteCache_cleanup now c))"
proof -
  from initializedD[OF assms] obtain rows where
    r: "db c = Some rows" "statements c" "table c = rows" by blast
  have l: "length rows = length (filter (\<lambda>r. \<not> expires_at r \<le> now) rows)
      + length (filter (\<lambda>r. expires_at r \<le> now) rows)"
    using sum_length_filter_compl[of "\<lambda>r. expires_at r \<le> now" rows] by simp
  show ?thesis
    using r l by (simp add: SQLiteCache_cleanup_def stmt_cleanup_def)
qed

theorem cleanup_removes_expired_witness:
  "initialized two_entries \<and>
   map key (table two_entries) = [''k'', ''j''] \<and>
   map expires_at (table two_entries) = [3700, 107] \<and>
   fst (SQLiteCache_cleanup 150 two_entries) = Inr 1 \<and>
   map key (table (snd (SQLiteCache_cleanup 150 two_entries))) = [''k''] \<and>
   SQLiteCache_cleanup 150 (snd (SQLiteCache_cleanup 150 two_entries)) = (Inr 0, snd (SQLiteCache_cleanup 150 two_entries))"
proof -
  have i: "initialized two_entries"
    by (simp add: initialized_def two_entries_eq)
  from cleanup_removes_expired [OF i, of 150]
  show ?thesis
    using i by (simp add: two_entries_eq table_def)
qed

subsection \<open>C9: \<^verbatim>\<open>stats\<close>\<close>



section \<open>The claims about the middleware and the key generator\<close>

subsection \<open>C2: failures of the caching subsystem\<close>

text \<open>
  C2 says that no failure during key derivation, cache lookup or cache store keeps the
  wrapped unit of work from running and returning its result. For the lookup and the store
  this holds (\<open>middleware_outcomes\<close>: once the key is derived, the outcome is a hit or
  the result of the unit of work). The key, however, is derived by
  \<^verbatim>\<open>const cacheKey = keyGenerator(req)\<close> on the line before the \<^verbatim>\<open>try\<close> block:
  for an eligible \<^verbatim>\<open>GET\<close> request whose key generator throws, the middleware throws
  the same error to its caller, the unit of work is not invoked and the cache is not
  touched.
\<close>

theorem key_derivation_failure_propagates:
  assumes "the_condition options req" and "req_method req = ''GET''"
    and "the_keyGenerator options req = Inl err"
  shows "createCacheMiddleware options req next t1 t2 c = (Propagated err, c)"
  using assms by (simp add: createCacheMiddleware_def)

theorem key_derivation_failure_propagates_witness:
  "the_condition throwing_options users_request \<and> req_method users_request = ''GET'' \<and>
   the_keyGenerator throwing_options users_request = Inl (Thrown ''boom'') \<and>
   createCacheMiddleware throwing_options users_request users_handler 100 101 fresh_engine
     = (Propagated (Thrown ''boom''), fresh_engine)"
proof -
  have a: "the_condition throwing_options users_request"
    by (simp add: the_condition_def throwing_options_def)
  have b: "req_method users_request = ''GET''"
    by (simp add: users_request_def)
  have c: "the_keyGenerator throwing_options users_request = Inl (Thrown ''boom'')"
    by (simp add: the_keyGenerator_def throwing_options_def)
  from key_derivation_failure_propagates [OF a b c, of users_handler 100 101 fresh_engine]
  show ?thesis using a b c by simp
qed

subsection \<open>C3: \<^verbatim>\<open>generateKey\<close>\<close>




subsection \<open>C10: a cached value that is falsy\<close>

text \<open>
  C10: when the active row of a key holds a text that parses to \<^verbatim>\<open>null\<close>,
  \<^verbatim>\<open>get\<close> returns \<^verbatim>\<open>null\<close>, which is also what it returns when the key has no
  active row. And for an eligible \<^verbatim>\<open>GET\<close> request whose key has an active row with
  a falsy value (for a JSON value: \<^verbatim>\<open>null\<close>, \<^verbatim>\<open>false\<close>, 0 or the empty
  string, by \<open>falsy_json_values\<close>), the middleware takes the miss branch: the unit of
  work is invoked and its result is sent.
\<close>

theorem cached_falsy_value_is_a_miss:
  "(initialized c \<longrightarrow> stmt_get k now (table c) = Some r \<longrightarrow>
      JSON_parse (value_text r) = Some JNull \<longrightarrow> fst (SQLiteCache_get k now c) = Inr JNull)
   \<and> (initialized c \<longrightarrow> stmt_get k now (table c) = None \<longrightarrow>
        fst (SQLiteCache_get k now c) = Inr JNull)
   \<and> (initialized c \<longrightarrow> the_condition options req \<longrightarrow> req_method req = ''GET'' \<longrightarrow>
        the_keyGenerator options req = Inr k \<longrightarrow> stmt_get k now (table c) = Some r \<longrightarrow>
        JSON_parse (value_text r) = Some v \<longrightarrow> \<not> truthy v \<longrightarrow>
        (\<exists>hs c'. createCacheMiddleware options req next now t2 c = (forward hs (next req), c')))"
proof (intro conjI impI)
  assume i: "initialized c" and g: "stmt_get k now (table c) = Some r"
    and p: "JSON_parse (value_text r) = Some JNull"
  from initializedD[OF i] obtain rows where "db c = Some rows" "statements c" "table c = rows"
    by blast
  with g p show "fst (SQLiteCache_get k now c) = Inr JNull"
    by (simp add: SQLiteCache_get_def)
next
  assume i: "initialized c" and g: "stmt_get k now (table c) = None"
  from initializedD[OF i] obtain rows where "db c = Some rows" "statements c" "table c = rows"
    by blast
  with g show "fst (SQLiteCache_get k now c) = Inr JNull"
    by (simp add: SQLiteCache_get_def)
next
  assume i: "initialized c" and cnd: "the_condition options req" "req_method req = ''GET''"
    and kg: "the_keyGenerator options req = Inr k"
    and g: "stmt_get k now (table c) = Some r"
    and p: "JSON_parse (value_text r) = Some v" and f: "\<not> truthy v"
  from initializedD[OF i] obtain rows where r: "db c = Some rows" "statements c" "table c = rows"
    by blast
  let ?c1 = "c\<lparr>db := Some (stmt_updateAccess k now rows)\<rparr>"
  have get: "SQLiteCache_get k now c = (Inr v, ?c1)"
    using r g p by (simp add: SQLiteCache_get_def)
  from intercepted_forwards[of k "the_ttl options" "the_skipSuccessful options" "next req" t2 ?c1]
  obtain hs c' where "intercepted k (the_ttl options) (the_skipSuccessful options) (next req) t2 ?c1
      = (forward hs (next req), c')" by blast
  with cnd kg get f
  show "\<exists>hs c'. createCacheMiddleware options req next now t2 c = (forward hs (next req), c')"
    by (auto simp add: createCacheMiddleware_def)
qed

theorem cached_falsy_value_is_a_miss_witness:
  "initialized cached_null \<and>
   stmt_get ''GET:/api/users'' 150 (table cached_null) =
     Some \<lparr>key = ''GET:/api/users'', value_text = ''null'', expires_at = 3700,
           created_at = 100, accessed_at = 100, hit_count = 1\<rparr> \<and>
   JSON_parse ''null'' = Some JNull \<and> \<not> truthy JNull \<and>
   fst (SQLiteCache_get ''GET:/api/users'' 150 cached_null) = Inr JNull \<and>
   stmt_get ''GET:/api/posts'' 150 (table cached_null) = None \<and>
   fst (SQLiteCache_get ''GET:/api/posts'' 150 cached_null) = Inr JNull \<and>
   the_condition default_options users_request \<and> req_method users_request = ''GET'' \<and>
   the_keyGenerator default_options users_request = Inr ''GET:/api/users'' \<and>
   (\<exists>hs c'. createCacheMiddleware default_options users_request users_handler 150 151 cached_null
       = (forward hs (users_handler users_request), c')) \<and>
   fst (createCacheMiddleware default_options users_request users_handler 150 151 cached_null)
     = forward [(''X-Cache-Hit'', ''false''), (''X-Cache-Key'', ''GET:/api/users'')]
         (users_handler users_request)"
proof -
  let ?k = "''GET:/api/users''"
  let ?r = "\<lparr>key = ''GET:/api/users'', value_text = ''null'', expires_at = 3700,
           created_at = 100, accessed_at = 100, hit_count = 1\<rparr>"
  have i: "initialized cached_null"
    by (simp add: initialized_def cached_null_eq)
  have g: "stmt_get ?k 150 (table cached_null) = Some ?r"
    by (simp add: cached_null_eq table_def stmt_get_def)
  have n: "stmt_get ''GET:/api/posts'' 150 (table cached_null) = None"
    by (simp add: cached_null_eq table_def stmt_get_def)
  have cnd: "the_condition default_options users_request"
    by (simp add: the_condition_def default_options_def)
  have m: "req_method users_request = ''GET''"
    by (simp add: users_request_def)
  have kg: "the_keyGenerator default_options users_request = Inr ?k"
    by (simp add: the_keyGenerator_def default_options_def default_keyGenerator_def
        users_request_def)
  have st: "JSON_stringify (JObj [(''success'', JBool True)]) =
      Some (''{'' @ [CHR 0x22] @ ''success'' @ [CHR 0x22] @ '':true}'')"
    by (simp add: JSON_stringify_def QuoteJSONString_def quote_char_def)
  have run: "fst (createCacheMiddleware default_options users_request users_handler 150 151
      cached_null) = forward [(''X-Cache-Hit'', ''false''), (''X-Cache-Key'', ?k)]
         (users_handler users_request)"
    using cnd m kg
    by (simp add: createCacheMiddleware_def cached_null_eq SQLiteCache_get_def stmt_get_def
        parse_null intercepted_def users_handler_def the_skipSuccessful_def the_ttl_def
        default_options_def SQLiteCache_set_def st)
  from cached_falsy_value_is_a_miss [of cached_null ?k 150 ?r default_options users_request JNull
      users_handler 151]
    cached_falsy_value_is_a_miss [of cached_null "''GET:/api/posts''" 150 ?r default_options
      users_request JNull users_handler 151]
  show ?thesis
    using i g n cnd m kg run parse_null by simp
qed

end
